theory Spec2Isabelle
  imports Complex_Main
begin

section \<open>Shielded pool chart: data model\<close>

text \<open>
  \<^verbatim>\<open>type ShieldedAmountDatum = { close: string; supply: number }\<close>
  (\<^verbatim>\<open>src/components/ShieldedPoolChart.tsx\<close>). A JavaScript number is read as a real; the
  supply is only carried along by the functions below, never computed with.
\<close>

record ShieldedAmountDatum =
  close :: string
  "supply" :: real

text \<open>
  The time value of a JavaScript \<^verbatim>\<open>Date\<close> is an integral number of milliseconds since the
  epoch, or \<^verbatim>\<open>NaN\<close> for an Invalid Date. \<open>None\<close> stands for \<^verbatim>\<open>NaN\<close>.
\<close>

type_synonym time = "int option"

datatype exception = TypeError

subsection \<open>The runtime's Date constructor\<close>

text \<open>
  \<^verbatim>\<open>new Date(s)\<close> belongs to the JavaScript runtime, not to the repository. The data file holds
  dates written month/day/year (the source's comment: "Date format from data, i.e. 01/01/1970").
  The model reads that format: a month and a day of one or two digits and a year of four digits,
  separated by slashes, taken as midnight at the start of the day in UTC; every other string is
  an Invalid Date. Days past the end of a month roll over into the next month, as the runtime's
  date arithmetic does.
\<close>

definition digit :: "char \<Rightarrow> int option" where
  "digit c = (let n = (of_char c :: nat) in if 48 \<le> n \<and> n \<le> 57 then Some (int n - 48) else None)"

fun number :: "char list \<Rightarrow> int option" where
  "number [] = None"
| "number cs = fold (\<lambda>c acc. case (acc, digit c) of (Some a, Some d) \<Rightarrow> Some (10 * a + d) | _ \<Rightarrow> None)
     cs (Some 0)"

fun split_on :: "char \<Rightarrow> string \<Rightarrow> string list" where
  "split_on c [] = [[]]"
| "split_on c (x # xs) =
     (if x = c then [] # split_on c xs
      else (case split_on c xs of [] \<Rightarrow> [[x]] | p # ps \<Rightarrow> (x # p) # ps))"

definition days_from_civil :: "int \<Rightarrow> int \<Rightarrow> int \<Rightarrow> int" where
  "days_from_civil y m d =
     (let y' = (if m \<le> 2 then y - 1 else y);
          era = y' div 400;
          yoe = y' - era * 400;
          mp = (m + 9) mod 12;
          doy = (153 * mp + 2) div 5 + d - 1;
          doe = yoe * 365 + yoe div 4 - yoe div 100 + doy
      in era * 146097 + doe - 719468)"

definition Date :: "string \<Rightarrow> time" where
  "Date s =
     (case split_on (CHR ''/'') s of
        [ms, ds, ys] \<Rightarrow>
          (if length ms \<le> 2 \<and> length ds \<le> 2 \<and> length ys = 4
           then (case (number ms, number ds, number ys) of
                   (Some m, Some d, Some y) \<Rightarrow>
                     if 1 \<le> m \<and> m \<le> 12 \<and> 1 \<le> d \<and> d \<le> 31
                     then Some (86400000 * days_from_civil y m d) else None
                 | _ \<Rightarrow> None)
           else None)
      | _ \<Rightarrow> None)"

text \<open>\<^verbatim>\<open>const getDate = (d) => new Date(d.close)\<close>\<close>

definition getDate :: "ShieldedAmountDatum \<Rightarrow> time" where
  "getDate d = Date (close d)"

text \<open>\<^verbatim>\<open>const getShieldedValue = (d) => d.supply\<close>\<close>

definition getShieldedValue :: "ShieldedAmountDatum \<Rightarrow> real" where
  "getShieldedValue d = supply d"

subsection \<open>Arithmetic and comparison on time values\<close>

text \<open>
  \<^verbatim>\<open>a - b\<close> and \<^verbatim>\<open>a > b\<close> on numbers: a \<^verbatim>\<open>NaN\<close> operand makes the difference \<^verbatim>\<open>NaN\<close> and the
  comparison false.
\<close>

fun minus_time :: "time \<Rightarrow> time \<Rightarrow> time" where
  "minus_time (Some a) (Some b) = Some (a - b)"
| "minus_time _ _ = None"

fun greater_time :: "time \<Rightarrow> time \<Rightarrow> bool" where
  "greater_time (Some a) (Some b) = (a > b)"
| "greater_time _ _ = False"

subsection \<open>The bisector of d3-array\<close>

text \<open>
  Modelled from the spec: \<^verbatim>\<open>bisector(f).left\<close> of the vendored d3-array is not among the source
  files; the spec calls it "locate the insertion index of that date in the (assumed sorted)
  sequence via binary search". The definitions follow the library's algorithm for an accessor
  \<open>f\<close>:
  \<^verbatim>\<open>
  function left(a, x, lo = 0, hi = a.length) {
    if (lo < hi) {
      if (compare1(x, x) !== 0) return hi;
      do {
        const mid = (lo + hi) >>> 1;
        if (compare2(a[mid], x) < 0) lo = mid + 1;
        else hi = mid;
      } while (lo < hi);
    }
    return lo;
  }
  \<close>
  with \<^verbatim>\<open>compare1 = ascending\<close> and \<^verbatim>\<open>compare2 = (d, x) => ascending(f(d), x)\<close>.
  \<^verbatim>\<open>ascending(a, b)\<close> is \<open>-1\<close>, \<open>0\<close> or \<open>1\<close>, and \<^verbatim>\<open>NaN\<close> when an operand is \<^verbatim>\<open>NaN\<close>.
  The indices of an array are far below \<open>2^31\<close>, where \<^verbatim>\<open>>>> 1\<close> is halving.
  Reading \<^verbatim>\<open>a[mid]\<close> outside the array gives \<^verbatim>\<open>undefined\<close>, on which the accessor
  (\<^verbatim>\<open>d.close\<close>) throws a TypeError.
\<close>

fun ascending :: "time \<Rightarrow> time \<Rightarrow> int option" where
  "ascending (Some a) (Some b) = Some (if a < b then - 1 else if a > b then 1 else 0)"
| "ascending _ _ = None"

fun negative :: "int option \<Rightarrow> bool" where
  "negative (Some c) = (c < 0)"
| "negative None = False"

function left_loop :: "('a \<Rightarrow> time) \<Rightarrow> 'a list \<Rightarrow> time \<Rightarrow> nat \<Rightarrow> nat \<Rightarrow> exception + nat" where
  "left_loop f a x lo hi =
     (let mid = (lo + hi) div 2 in
      if length a \<le> mid then Inl TypeError
      else if negative (ascending (f (a ! mid)) x)
           then (if mid + 1 < hi then left_loop f a x (mid + 1) hi else Inr (mid + 1))
           else (if lo < mid then left_loop f a x lo mid else Inr lo))"
  by pat_completeness auto
termination
  by (relation "measure (\<lambda>(f, a, x, lo, hi). hi - lo)") auto

declare left_loop.simps [simp del]

definition left :: "('a \<Rightarrow> time) \<Rightarrow> 'a list \<Rightarrow> time \<Rightarrow> nat \<Rightarrow> nat \<Rightarrow> exception + nat" where
  "left f a x lo hi =
     (if lo < hi
      then (if ascending x x \<noteq> Some 0 then Inr hi else left_loop f a x lo hi)
      else Inr lo)"

text \<open>
  \<^verbatim>\<open>const bisectDate = bisector<ShieldedAmountDatum, Date>((d) => new Date(d.close)).left\<close>,
  called with three arguments, so \<^verbatim>\<open>hi\<close> is the length of the array.
\<close>

definition bisectDate :: "ShieldedAmountDatum list \<Rightarrow> time \<Rightarrow> nat \<Rightarrow> exception + nat" where
  "bisectDate a x lo = left (\<lambda>d. Date (close d)) a x lo (length a)"

subsection \<open>Tooltip hit-testing\<close>

text \<open>\<^verbatim>\<open>a[i]\<close>: \<open>None\<close> is \<^verbatim>\<open>undefined\<close>.\<close>

definition elem_at :: "'a list \<Rightarrow> nat \<Rightarrow> 'a option" where
  "elem_at a i = (if i < length a then Some (a ! i) else None)"

text \<open>
  \<^verbatim>\<open>handleTooltip\<close>, from the pointer's date \<^verbatim>\<open>x0 = dateScale.invert(x)\<close> on: the result is the
  datum handed to \<^verbatim>\<open>showTooltip\<close> as \<^verbatim>\<open>tooltipData\<close>.
  \<^verbatim>\<open>
  const index = bisectDate(chartData, x0, 1);
  const d0 = chartData[index - 1];
  const d1 = chartData[index];
  let d = d0;
  if (d1 && getDate(d1)) {
    d = x0.valueOf() - getDate(d0).valueOf() > getDate(d1).valueOf() - x0.valueOf() ? d1 : d0;
  }
  showTooltip({ tooltipData: d, tooltipLeft: x, tooltipTop: shieldedValueScale(getShieldedValue(d)) });
  \<close>
  A \<^verbatim>\<open>Date\<close> object is truthy, so the condition is that \<^verbatim>\<open>d1\<close> is defined. With \<^verbatim>\<open>d0\<close>
  undefined, \<^verbatim>\<open>getDate(d0)\<close> or \<^verbatim>\<open>getShieldedValue(d)\<close> throws a TypeError.
\<close>

definition handleTooltip :: "ShieldedAmountDatum list \<Rightarrow> time \<Rightarrow> exception + ShieldedAmountDatum" where
  "handleTooltip chartData x0 =
     (case bisectDate chartData x0 1 of
        Inl e \<Rightarrow> Inl e
      | Inr index \<Rightarrow>
          (let d0 = (if index = 0 then None else elem_at chartData (index - 1));
               d1 = elem_at chartData index
           in case d0 of
                None \<Rightarrow> Inl TypeError
              | Some e0 \<Rightarrow>
                  (case d1 of
                     None \<Rightarrow> Inr e0
                   | Some e1 \<Rightarrow>
                       Inr (if greater_time (minus_time x0 (getDate e0)) (minus_time (getDate e1) x0)
                            then e1 else e0))))"

section \<open>Shielded pool chart: loading the data\<close>

text \<open>
  The component's three state variables
  \<^verbatim>\<open>
  const [chartData, setChartData] = useState([] as Array<ShieldedAmountDatum>);
  const [isLoading, setIsLoading] = useState(false);
  const [error, setError] = useState(null);
  \<close>
  together with what the data-loading effect needs around them. The error is kept as its message.
  \<open>stored\<close> counts the objects put into \<^verbatim>\<open>chartData\<close> and \<^verbatim>\<open>error\<close> so far: the array parsed from
  a response and the error of a failed request are new objects each time, and React compares the
  effect's dependencies \<^verbatim>\<open>[chartData, isLoading, error]\<close> by identity, so the dependencies
  differ from those of the effect's last run exactly when \<open>stored\<close> or \<^verbatim>\<open>isLoading\<close> does.
  \<open>deps\<close> holds the two values of the last run (\<open>None\<close> before the first), \<open>requests\<close> the number
  of network requests issued so far, \<open>promise\<close> the stage of the chain
  \<^verbatim>\<open>fetchShieldedSupplyData().then(..).catch(..).finally(..)\<close>.
\<close>

datatype promise = NoRequest | Pending | Settled

record component =
  chartData :: "ShieldedAmountDatum list"
  isLoading :: bool
  error :: "string option"
  stored :: nat
  deps :: "(nat \<times> bool) option"
  requests :: nat
  promise :: promise

definition mount :: component where
  "mount = \<lparr>chartData = [], isLoading = False, error = None, stored = 0, deps = None,
            requests = 0, promise = NoRequest\<rparr>"

text \<open>
  The body of the effect:
  \<^verbatim>\<open>
  if (isLoading) return;
  if (chartData.length > 0) return;
  setIsLoading(true);
  fetchShieldedSupplyData()
    .then((data) => setChartData(data))
    .catch((error) =>  setError(error))
    .finally(() => setIsLoading(false));
  \<close>
\<close>

definition useEffect :: "component \<Rightarrow> component" where
  "useEffect s =
     (if isLoading s then s
      else if length (chartData s) > 0 then s
      else s\<lparr>isLoading := True, requests := requests s + 1, promise := Pending\<rparr>)"

text \<open>
  What can happen to a mounted component. \<open>Effect\<close>: after a render, React runs the effect when
  one of its dependencies differs from the value of the last run, and on mount. \<open>Then data\<close>: the
  request succeeds and \<^verbatim>\<open>setChartData(data)\<close> runs. \<open>Catch e\<close>: the request fails
  (\<^verbatim>\<open>fetch\<close> rejects, the response is not \<^verbatim>\<open>ok\<close>, or its body is not JSON) and
  \<^verbatim>\<open>setError(error)\<close> runs. \<open>Finally\<close>: \<^verbatim>\<open>setIsLoading(false)\<close> runs after either.
\<close>

datatype event = Effect | Then "ShieldedAmountDatum list" | Catch string | Finally

fun fire :: "event \<Rightarrow> component \<Rightarrow> component option" where
  "fire Effect s =
     (let d = (stored s, isLoading s)
      in if deps s = Some d then None else Some (useEffect (s\<lparr>deps := Some d\<rparr>)))"
| "fire (Then data) s =
     (if promise s = Pending
      then Some (s\<lparr>chartData := data, stored := stored s + 1, promise := Settled\<rparr>) else None)"
| "fire (Catch e) s =
     (if promise s = Pending
      then Some (s\<lparr>error := Some e, stored := stored s + 1, promise := Settled\<rparr>) else None)"
| "fire Finally s =
     (if promise s = Settled then Some (s\<lparr>isLoading := False, promise := NoRequest\<rparr>) else None)"

fun run :: "event list \<Rightarrow> component \<Rightarrow> component option" where
  "run [] s = Some s"
| "run (ev # evs) s = (case fire ev s of None \<Rightarrow> None | Some s' \<Rightarrow> run evs s')"

inductive reachable :: "component \<Rightarrow> bool" where
  mounted: "reachable mount"
| step: "reachable s \<Longrightarrow> fire ev s = Some s' \<Longrightarrow> reachable s'"

text \<open>
  Three facts hold in every reachable state: the effect's recorded dependencies are not ahead
  of the state; \<^verbatim>\<open>isLoading\<close> is set while a request is under way; and when the effect has
  already run with the present dependencies and \<^verbatim>\<open>isLoading\<close> false, then either it has just
  issued a request or data is present.
\<close>

definition settled_invariant :: "component \<Rightarrow> bool" where
  "settled_invariant s =
     ((case deps s of None \<Rightarrow> True | Some (n, b) \<Rightarrow> n \<le> stored s)
      \<and> (promise s = NoRequest \<or> isLoading s)
      \<and> (deps s = Some (stored s, False) \<longrightarrow> promise s = Pending \<or> chartData s \<noteq> []))"

text \<open>
  What the component returns:
  \<^verbatim>\<open>
  if (chartData.length === 0 || isLoading) { return (.. Loading historic shielding data... ..); }
  if (error) { return (.. Error loading historic shielding data ..); }
  return (.. the chart ..);
  \<close>
\<close>

datatype view = LoadingIndicator | ErrorIndicator | Chart "ShieldedAmountDatum list"

definition render :: "component \<Rightarrow> view" where
  "render s =
     (if length (chartData s) = 0 \<or> isLoading s then LoadingIndicator
      else if error s \<noteq> None then ErrorIndicator
      else Chart (chartData s))"

section \<open>Export of the dashboard chart as PNG\<close>

text \<open>
  \<^verbatim>\<open>src/constants/walletsConfig.ts\<close>:
  \<^verbatim>\<open>export const PoolsType = { default: "default", sprout: "sprout", sap: "sapling", ord: "orchard" }\<close>
\<close>

definition PoolsType_default :: string where "PoolsType_default = ''default''"
definition PoolsType_sprout :: string where "PoolsType_sprout = ''sprout''"
definition PoolsType_sap :: string where "PoolsType_sap = ''sapling''"
definition PoolsType_ord :: string where "PoolsType_ord = ''orchard''"

text \<open>
  \<^verbatim>\<open>poolData: Record<string, { timestamp: string; supply: number } | null>\<close>. The field
  \<^verbatim>\<open>supply\<close> is called \<open>poolSupply\<close> here, record fields sharing one name space. For a key
  \<open>k\<close>, \<open>poolData k = None\<close> is an absent key (\<^verbatim>\<open>undefined\<close>), \<open>Some None\<close> is \<^verbatim>\<open>null\<close>.
\<close>

record PoolEntry =
  timestamp :: string
  poolSupply :: real

type_synonym PoolData = "string \<rightharpoonup> PoolEntry option"

text \<open>
  \<^verbatim>\<open>${poolData[key]?.supply.toLocaleString()}\<close> inside a template literal: on \<^verbatim>\<open>null\<close> and
  \<^verbatim>\<open>undefined\<close> the optional chain stops with \<^verbatim>\<open>undefined\<close>, which the template writes as
  the nine letters. \<^verbatim>\<open>Number.prototype.toLocaleString\<close> belongs to the runtime and follows its
  locale: it is a parameter.
\<close>

definition interpolate :: "(real \<Rightarrow> string) \<Rightarrow> PoolEntry option option \<Rightarrow> string" where
  "interpolate toLocaleString v =
     (case v of Some (Some r) \<Rightarrow> toLocaleString (poolSupply r) | _ \<Rightarrow> ''undefined'')"

text \<open>
  The text given to the node \<^verbatim>\<open>poolQty\<close>:
  \<^verbatim>\<open>
  if (poolType == PoolsType.sprout) {
    poolQty.textContent = `${poolData["sproutSupply"]?.supply.toLocaleString()} ZEC in Sprout Pool`;
  } else if (poolType == PoolsType.ord) {
    poolQty.textContent = `${poolData["orchardSupply"]?.supply.toLocaleString()} ZEC in Orchard Pool`;
  } else if (poolType == PoolsType.sap) {
    poolQty.textContent = `${poolData["saplingSupply"]?.supply.toLocaleString()} ZEC in Sapling Pool`;
  } else {
    poolQty.textContent = "";
  }
  \<close>
\<close>

definition poolQty :: "(real \<Rightarrow> string) \<Rightarrow> string \<Rightarrow> PoolData \<Rightarrow> string" where
  "poolQty toLocaleString poolType poolData =
     (if poolType = PoolsType_sprout
      then interpolate toLocaleString (poolData ''sproutSupply'') @ '' ZEC in Sprout Pool''
      else if poolType = PoolsType_ord
      then interpolate toLocaleString (poolData ''orchardSupply'') @ '' ZEC in Orchard Pool''
      else if poolType = PoolsType_sap
      then interpolate toLocaleString (poolData ''saplingSupply'') @ '' ZEC in Sapling Pool''
      else [])"

text \<open>
  The page as far as the export touches it: the children of the element \<^verbatim>\<open>divChartRef.current\<close>
  (\<open>None\<close> when the reference is \<^verbatim>\<open>null\<close>), the number of nodes created so far, which is the
  identity of the next one, the downloads started (\<^verbatim>\<open>href\<close> and \<^verbatim>\<open>download\<close> of the link
  clicked) and the lines written by \<^verbatim>\<open>console.error\<close>.
\<close>

record element =
  ident :: nat
  tagName :: string
  style :: "(string \<times> string) list"
  textContent :: string

record page =
  divChartRef :: "element list option"
  created :: nat
  downloads :: "(string \<times> string) list"
  console :: "string list"

text \<open>
  The overlay:
  \<^verbatim>\<open>
  const span = document.createElement("span");
  span.style.color = "#eee";
  span.style.position = "absolute";
  span.style.top = "20px";
  span.style.paddingLeft = "24px";
  span.style.zIndex = "1000";
  span.appendChild(poolQty);
  \<close>
\<close>

definition overlay :: "nat \<Rightarrow> string \<Rightarrow> element" where
  "overlay n label =
     \<lparr>ident = n, tagName = ''span'',
      style = [(''color'', ''#eee''), (''position'', ''absolute''), (''top'', ''20px''),
               (''paddingLeft'', ''24px''), (''zIndex'', ''1000'')],
      textContent = label\<rparr>"

text \<open>\<^verbatim>\<open>parent.appendChild(node)\<close> and \<^verbatim>\<open>parent.removeChild(node)\<close>, a node being known by its identity.\<close>

definition appendChild :: "element \<Rightarrow> element list \<Rightarrow> element list" where
  "appendChild node children = children @ [node]"

definition removeChild :: "element \<Rightarrow> element list \<Rightarrow> element list" where
  "removeChild node children = filter (\<lambda>n. ident n \<noteq> ident node) children"

text \<open>
  \<^verbatim>\<open>html2canvas\<close> is a library outside the repository: a parameter that, from the subtree it is
  given, either rejects with a reason or resolves to a canvas, which stands here as the data URL
  that \<^verbatim>\<open>canvas.toDataURL("image/png")\<close> returns (called with its default options, the library
  keeps the canvas readable).
\<close>

datatype raster = Rejected string | Canvas string

text \<open>
  \<^verbatim>\<open>
  if (divChartRef.current) {
    divChartRef.current.appendChild(span);
  }
  try {
    const canvas = await html2canvas(divChartRef.current!);
    const link = document.createElement("a");
    link.href = canvas.toDataURL("image/png");
    link.download = `zcash-${poolType}-pool-chart.png`;
    link.click();
    divChartRef.current?.removeChild(span);
  } catch (err) {
    console.error("Error saving chart: ", err);
  }
  \<close>
\<close>

definition handleSaveToPng ::
  "(real \<Rightarrow> string) \<Rightarrow> (element list option \<Rightarrow> raster) \<Rightarrow> string \<Rightarrow> PoolData \<Rightarrow> page \<Rightarrow> page" where
  "handleSaveToPng toLocaleString html2canvas poolType poolData s =
     (let span = overlay (created s) (poolQty toLocaleString poolType poolData);
          s1 = s\<lparr>created := created s + 1,
                 divChartRef := map_option (appendChild span) (divChartRef s)\<rparr>
      in case html2canvas (divChartRef s1) of
           Canvas url \<Rightarrow>
             s1\<lparr>downloads := downloads s1 @ [(url, ''zcash-'' @ poolType @ ''-pool-chart.png'')],
                divChartRef := map_option (removeChild span) (divChartRef s1)\<rparr>
         | Rejected err \<Rightarrow>
             s1\<lparr>console := console s1 @ [''Error saving chart: '' @ err]\<rparr>)"

text \<open>
  One rendering of \<^verbatim>\<open>toLocaleString\<close>, used in the examples: a whole number as the locale
  \<^verbatim>\<open>en-US\<close> writes it, the digits in groups of three separated by commas.
\<close>

fun digits :: "nat \<Rightarrow> string" where
  "digits n =
     (if n < 10 then [''0123456789'' ! n] else digits (n div 10) @ [''0123456789'' ! (n mod 10)])"

fun group3 :: "string \<Rightarrow> string" where
  "group3 (a # b # c # d # rest) = a # b # c # CHR '','' # group3 (d # rest)"
| "group3 cs = cs"

definition en_US :: "real \<Rightarrow> string" where
  "en_US v = (if v < 0 then ''-'' else []) @ rev (group3 (rev (digits (nat \<lfloor>\<bar>v\<bar>\<rfloor>))))"

section \<open>Example data\<close>

text \<open>The two-point series \<^verbatim>\<open>[{close:"01/01/2020",supply:10},{close:"01/01/2021",supply:20}]\<close>.\<close>

definition first_point :: ShieldedAmountDatum where
  "first_point = \<lparr>close = ''01/01/2020'', supply = 10\<rparr>"

definition second_point :: ShieldedAmountDatum where
  "second_point = \<lparr>close = ''01/01/2021'', supply = 20\<rparr>"

definition two_points :: "ShieldedAmountDatum list" where
  "two_points = [first_point, second_point]"


text \<open>
  A page whose chart element holds one child, and balances with a sprout entry only:
  \<^verbatim>\<open>{ sproutSupply: { timestamp: "2024-01-01", supply: 1234567 } }\<close>.
\<close>

definition chart_canvas :: element where
  "chart_canvas = \<lparr>ident = 0, tagName = ''canvas'', style = [], textContent = []\<rparr>"

definition chart_page :: page where
  "chart_page = \<lparr>divChartRef = Some [chart_canvas], created = 1, downloads = [], console = []\<rparr>"

definition sprout_pool :: PoolData where
  "sprout_pool = [''sproutSupply'' \<mapsto> Some \<lparr>timestamp = ''2024-01-01'', poolSupply = 1234567\<rparr>]"

section \<open>The tooltip selects the nearest datum\<close>

text \<open>
  The binary search on a part \<open>lo..<hi\<close> of the array returns an index of that part (or \<open>hi\<close>)
  with a smaller date just before it and no smaller date at it. \<open>ts\<close> are the time values of the
  data.
\<close>

lemma left_loop_bounds:
  assumes "map f a = map Some ts" and "xo = Some x" and "lo < hi" and "hi \<le> length a"
  shows "\<exists>i. left_loop f a xo lo hi = Inr i \<and> lo \<le> i \<and> i \<le> hi
           \<and> (i = lo \<or> ts ! (i - 1) < x) \<and> (i = hi \<or> x \<le> ts ! i)"
  using assms
proof (induction f a xo lo hi rule: left_loop.induct)
  case (1 f a xo lo hi)
  define mid where "mid = (lo + hi) div 2"
  have mid: "lo \<le> mid" "mid < hi" "mid < length a"
    using "1.prems" by (auto simp: mid_def)
  have fm: "f (a ! mid) = Some (ts ! mid)"
    using "1.prems"(1) mid(3) by (metis length_map nth_map)
  show ?case
  proof (cases "ts ! mid < x")
    case True
    then have neg: "negative (ascending (f (a ! mid)) xo)"
      using fm "1.prems"(2) by simp
    show ?thesis
    proof (cases "mid + 1 < hi")
      case True
      from "1.IH"(1)[OF mid_def _ neg True "1.prems"(1,2) True "1.prems"(4)] mid
      obtain i where "left_loop f a xo (mid + 1) hi = Inr i" "mid + 1 \<le> i" "i \<le> hi"
        "i = mid + 1 \<or> ts ! (i - 1) < x" "i = hi \<or> x \<le> ts ! i"
        by auto
      moreover have "left_loop f a xo lo hi = left_loop f a xo (mid + 1) hi"
        using neg True mid by (subst left_loop.simps) (simp add: mid_def Let_def)
      ultimately show ?thesis using \<open>ts ! mid < x\<close> mid by auto
    next
      case False
      then have "left_loop f a xo lo hi = Inr (mid + 1)"
        using neg mid by (subst left_loop.simps) (simp add: mid_def Let_def)
      moreover have "mid + 1 = hi" using False mid by simp
      ultimately show ?thesis using \<open>ts ! mid < x\<close> mid by auto
    qed
  next
    case False
    then have neg: "\<not> negative (ascending (f (a ! mid)) xo)"
      using fm "1.prems"(2) by simp
    show ?thesis
    proof (cases "lo < mid")
      case True
      from "1.IH"(2)[OF mid_def _ neg True "1.prems"(1,2) True] mid
      obtain i where "left_loop f a xo lo mid = Inr i" "lo \<le> i" "i \<le> mid"
        "i = lo \<or> ts ! (i - 1) < x" "i = mid \<or> x \<le> ts ! i"
        by auto
      moreover have "left_loop f a xo lo hi = left_loop f a xo lo mid"
        using neg True mid by (subst left_loop.simps) (simp add: mid_def Let_def)
      ultimately show ?thesis using False mid by auto
    next
      case False
      then have "left_loop f a xo lo hi = Inr lo"
        using neg mid by (subst left_loop.simps) (simp add: mid_def Let_def)
      moreover have "mid = lo" using False mid by simp
      ultimately show ?thesis using \<open>\<not> ts ! mid < x\<close> mid by auto
    qed
  qed
qed

lemma getDate_nth:
  assumes "map getDate xs = map Some ts" and "j < length xs"
  shows "getDate (xs ! j) = Some (ts ! j)"
  using assms by (metis length_map nth_map)

lemma bisectDate_index:
  assumes dates: "map getDate xs = map Some ts" and srt: "sorted ts" and ne: "xs \<noteq> []"
  shows "\<exists>i. bisectDate xs (Some x) 1 = Inr i \<and> 1 \<le> i \<and> i \<le> length xs
           \<and> (\<forall>j. 1 \<le> j \<and> j < i \<longrightarrow> ts ! j < x)
           \<and> (\<forall>j. i \<le> j \<and> j < length xs \<longrightarrow> x \<le> ts ! j)"
proof (cases "1 < length xs")
  case False
  with ne have "length xs = 1" by (cases xs) auto
  then show ?thesis by (simp add: bisectDate_def left_def)
next
  case True
  have len: "length ts = length xs"
    using dates by (metis length_map)
  have acc: "map (\<lambda>d. Date (close d)) xs = map Some ts"
    using dates by (simp add: getDate_def [abs_def])
  from left_loop_bounds [OF acc refl True order_refl, of x]
  obtain i where i: "left_loop (\<lambda>d. Date (close d)) xs (Some x) 1 (length xs) = Inr i"
    "1 \<le> i" "i \<le> length xs" "i = 1 \<or> ts ! (i - 1) < x" "i = length xs \<or> x \<le> ts ! i"
    by blast
  have below: "ts ! j < x" if "1 \<le> j" "j < i" for j
  proof -
    from that i(4) have "ts ! (i - 1) < x" by auto
    moreover have "ts ! j \<le> ts ! (i - 1)"
      using srt that i(3) len by (intro sorted_nth_mono) auto
    ultimately show ?thesis by simp
  qed
  have above: "x \<le> ts ! j" if "i \<le> j" "j < length xs" for j
  proof -
    from that i(5) have "x \<le> ts ! i" by auto
    moreover have "ts ! i \<le> ts ! j"
      using srt that len by (intro sorted_nth_mono) auto
    ultimately show ?thesis by simp
  qed
  have "bisectDate xs (Some x) 1 = Inr i"
    using True i(1) by (simp add: bisectDate_def left_def)
  with i(2,3) below above show ?thesis by blast
qed

lemma handleTooltip_index:
  assumes dates: "map getDate xs = map Some ts" and srt: "sorted ts" and ne: "xs \<noteq> []"
  shows "\<exists>i. 1 \<le> i \<and> i \<le> length xs
           \<and> (\<forall>j. 1 \<le> j \<and> j < i \<longrightarrow> ts ! j < x)
           \<and> (\<forall>j. i \<le> j \<and> j < length xs \<longrightarrow> x \<le> ts ! j)
           \<and> handleTooltip xs (Some x) =
               Inr (if i < length xs \<and> x - ts ! (i - 1) > ts ! i - x then xs ! i else xs ! (i - 1))"
proof -
  from bisectDate_index [OF assms, of x]
  obtain i where i: "bisectDate xs (Some x) 1 = Inr i" "1 \<le> i" "i \<le> length xs"
    "\<forall>j. 1 \<le> j \<and> j < i \<longrightarrow> ts ! j < x" "\<forall>j. i \<le> j \<and> j < length xs \<longrightarrow> x \<le> ts ! j"
    by blast
  have d0: "getDate (xs ! (i - 1)) = Some (ts ! (i - 1))"
    using i(2,3) by (intro getDate_nth [OF dates]) simp
  have "handleTooltip xs (Some x) =
      Inr (if i < length xs \<and> x - ts ! (i - 1) > ts ! i - x then xs ! i else xs ! (i - 1))"
  proof (cases "i < length xs")
    case True
    then have d1: "getDate (xs ! i) = Some (ts ! i)"
      by (rule getDate_nth [OF dates])
    show ?thesis
      using True i(1,2) d0 d1 by (simp add: handleTooltip_def elem_at_def)
  next
    case False
    then show ?thesis
      using i(1,2,3) ne by (simp add: handleTooltip_def elem_at_def)
  qed
  with i(2-5) show ?thesis by blast
qed

text \<open>
  Claim C1, as amended. For a non-empty series whose dates parse and are in non-decreasing order,
  and a pointer date \<open>x\<close>, \<^verbatim>\<open>handleTooltip\<close> selects a datum of the series whose date is nearest
  to \<open>x\<close> in absolute time distance; and when \<open>x\<close> lies strictly between two neighbouring data
  and is equally far from both, it selects the earlier (left) one.
\<close>

theorem handleTooltip_nearest:
  assumes dates: "map getDate xs = map Some ts" and srt: "sorted ts" and ne: "xs \<noteq> []"
  shows "\<exists>i<length xs. handleTooltip xs (Some x) = Inr (xs ! i)
           \<and> (\<forall>j<length xs. \<bar>x - ts ! i\<bar> \<le> \<bar>x - ts ! j\<bar>)
           \<and> (\<forall>k. 0 < k \<and> k < length xs \<and> ts ! (k - 1) < x \<and> x < ts ! k
                    \<and> x - ts ! (k - 1) = ts ! k - x
                 \<longrightarrow> handleTooltip xs (Some x) = Inr (xs ! (k - 1)))"
proof -
  have len: "length ts = length xs"
    using dates by (metis length_map)
  from handleTooltip_index [OF assms, of x]
  obtain i where i: "1 \<le> i" "i \<le> length xs"
    and below: "\<And>j. 1 \<le> j \<Longrightarrow> j < i \<Longrightarrow> ts ! j < x"
    and above: "\<And>j. i \<le> j \<Longrightarrow> j < length xs \<Longrightarrow> x \<le> ts ! j"
    and res: "handleTooltip xs (Some x) =
      Inr (if i < length xs \<and> x - ts ! (i - 1) > ts ! i - x then xs ! i else xs ! (i - 1))"
    by blast
  have mono: "ts ! j \<le> ts ! k" if "j \<le> k" "k < length xs" for j k
    using srt that len by (intro sorted_nth_mono) auto
  define r where "r = (if i < length xs \<and> x - ts ! (i - 1) > ts ! i - x then i else i - 1)"
  have r: "r < length xs" "handleTooltip xs (Some x) = Inr (xs ! r)"
    using i res by (auto simp: r_def)
  have near: "\<bar>x - ts ! r\<bar> \<le> \<bar>x - ts ! j\<bar>" if j: "j < length xs" for j
  proof (cases "i < length xs \<and> x - ts ! (i - 1) > ts ! i - x")
    case True
    then have ri: "r = i" by (simp add: r_def)
    have xi: "x \<le> ts ! i" using above [of i] True by simp
    show ?thesis
    proof (cases "i \<le> j")
      case True
      with mono [of i j] j xi ri show ?thesis by simp
    next
      case False
      then have "ts ! j \<le> ts ! (i - 1)" using mono [of j "i - 1"] i by simp
      with True xi ri show ?thesis by simp
    qed
  next
    case False
    then have ri: "r = i - 1" unfolding r_def by (rule if_not_P)
    show ?thesis
    proof (cases "i \<le> j")
      case True
      then have ij: "ts ! i \<le> ts ! j" "x \<le> ts ! i" "i < length xs"
        using mono [of i j] above [of i] j by simp_all
      with False have "x - ts ! (i - 1) \<le> ts ! i - x" by simp
      moreover have "ts ! (i - 1) \<le> ts ! i" using mono [of "i - 1" i] ij(3) by simp
      ultimately show ?thesis using ij ri by simp
    next
      case nle: False
      show ?thesis
      proof (cases "i = 1")
        case True
        with nle have "j = 0" by simp
        with ri True show ?thesis by simp
      next
        case False
        then have "ts ! (i - 1) < x" using below [of "i - 1"] i by simp
        moreover have "ts ! j \<le> ts ! (i - 1)" using mono [of j "i - 1"] nle i by simp
        ultimately show ?thesis using ri by simp
      qed
    qed
  qed
  have tie: "handleTooltip xs (Some x) = Inr (xs ! (k - 1))"
    if k: "0 < k" "k < length xs" "ts ! (k - 1) < x" "x < ts ! k" "x - ts ! (k - 1) = ts ! k - x" for k
  proof -
    have "\<not> k < i"
    proof
      assume "k < i"
      with below [of k] k show False by simp
    qed
    moreover have "\<not> i < k"
    proof
      assume "i < k"
      then have "i \<le> k - 1" "k - 1 < length xs" using k(2) by simp_all
      then have "x \<le> ts ! (k - 1)" by (rule above)
      with k(3) show False by simp
    qed
    ultimately have "i = k" by simp
    with res k show ?thesis by simp
  qed
  from r near tie show ?thesis by blast
qed

text \<open>
  The amended claim at the two-point series, for a pointer at the exact midpoint between the two
  dates (2 July 2020).
\<close>

theorem handleTooltip_nearest_witness:
  "map getDate two_points = map Some [1577836800000, 1609459200000]
   \<and> sorted [1577836800000, 1609459200000 :: int]
   \<and> two_points \<noteq> []
   \<and> handleTooltip two_points (Some 1593648000000) = Inr (two_points ! 0)"
proof -
  let ?ts = "[1577836800000, 1609459200000 :: int]"
  have dates: "map getDate two_points = map Some ?ts"
    by code_simp
  have srt: "sorted ?ts"
    by simp
  have ne: "two_points \<noteq> []"
    by (simp add: two_points_def)
  from handleTooltip_nearest [OF dates srt ne, of 1593648000000]
  have "\<forall>k. 0 < k \<and> k < length two_points \<and> ?ts ! (k - 1) < 1593648000000
           \<and> 1593648000000 < ?ts ! k \<and> 1593648000000 - ?ts ! (k - 1) = ?ts ! k - 1593648000000
         \<longrightarrow> handleTooltip two_points (Some 1593648000000) = Inr (two_points ! (k - 1))"
    by blast
  from this [rule_format, of 1]
  have "handleTooltip two_points (Some 1593648000000) = Inr (two_points ! 0)"
    by (simp add: two_points_def)
  with dates srt ne show ?thesis by blast
qed

text \<open>
  Claim C1 as stated fails: at the exact midpoint between 1 January 2020 and 1 January 2021 the
  two data are equally far away, the comparison \<^verbatim>\<open>x0 - getDate(d0) > getDate(d1) - x0\<close> is
  false, and the first point is selected, not the second.
\<close>

theorem handleTooltip_midpoint_counterexample:
  "getDate first_point = Some 1577836800000
   \<and> getDate second_point = Some 1609459200000
   \<and> (1593648000000 :: int) - 1577836800000 = 1609459200000 - 1593648000000
   \<and> handleTooltip two_points (Some 1593648000000) = Inr first_point
   \<and> handleTooltip two_points (Some 1593648000000) \<noteq> Inr second_point"
  by code_simp



section \<open>Loading: what is rendered, and when requests are issued\<close>


text \<open>
  Claim C2, at the failing input. The first request fails with an error \<open>e\<close>: the effect runs on
  mount and again after \<^verbatim>\<open>setIsLoading(true)\<close>, the request is rejected, \<^verbatim>\<open>setError\<close> and then
  \<^verbatim>\<open>setIsLoading(false)\<close> run. In the state reached the fetch has completed with an error and no
  data is stored, and the component renders the loading indicator, not the error indicator: the
  test \<^verbatim>\<open>chartData.length === 0\<close> comes first.
\<close>

theorem failed_fetch_renders_loading:
  "\<exists>s. run [Effect, Effect, Catch e, Effect, Finally] mount = Some s
       \<and> chartData s = [] \<and> error s = Some e \<and> \<not> isLoading s \<and> promise s = NoRequest
       \<and> render s = LoadingIndicator \<and> render s \<noteq> ErrorIndicator"
  by (simp add: mount_def useEffect_def render_def)

text \<open>
  Claim C3, at the failing input. After the first request has failed and \<^verbatim>\<open>setIsLoading(false)\<close>
  has run, one request has been issued; \<^verbatim>\<open>isLoading\<close> differs from its value at the effect's last
  run, so the effect runs again, finds \<^verbatim>\<open>isLoading\<close> false and \<^verbatim>\<open>chartData\<close> empty, and issues a
  second request.
\<close>

theorem failed_fetch_is_retried:
  "\<exists>s s'. run [Effect, Effect, Catch e, Effect, Finally] mount = Some s
       \<and> requests s = 1 \<and> promise s = NoRequest
       \<and> fire Effect s = Some s'
       \<and> requests s' = 2 \<and> promise s' = Pending"
  by (simp add: mount_def useEffect_def)



text \<open>Every event keeps the invariant, so it holds in every reachable state.\<close>

lemma fire_invariant:
  assumes "settled_invariant s" and "fire ev s = Some s'"
  shows "settled_invariant s'"
proof (cases ev)
  case Effect
  with assms show ?thesis
    by (auto simp: settled_invariant_def useEffect_def Let_def split: if_splits option.splits)
next
  case (Then data)
  with assms show ?thesis
    by (auto simp: settled_invariant_def split: if_splits option.splits)
next
  case (Catch e)
  with assms show ?thesis
    by (auto simp: settled_invariant_def split: if_splits option.splits)
next
  case Finally
  with assms show ?thesis
    by (auto simp: settled_invariant_def split: if_splits option.splits)
qed

lemma reachable_invariant:
  assumes "reachable s"
  shows "settled_invariant s"
  using assms
proof (induction rule: reachable.induct)
  case mounted
  show ?case by (simp add: settled_invariant_def mount_def)
next
  case (step s ev s')
  then show ?case by (blast intro: fire_invariant)
qed

text \<open>
  Whenever the component is idle without data, as it is after every failed request, the effect
  is due to run, and it issues one more request.
\<close>

lemma idle_without_data_refetches:
  assumes "reachable s" and "chartData s = []" and "\<not> isLoading s"
  shows "\<exists>s'. fire Effect s = Some s' \<and> requests s' = requests s + 1 \<and> promise s' = Pending"
proof -
  from assms(1) have inv: "settled_invariant s"
    by (rule reachable_invariant)
  with assms(2,3) have "deps s \<noteq> Some (stored s, isLoading s)"
    by (auto simp: settled_invariant_def)
  with assms(2,3) show ?thesis
    by (simp add: useEffect_def Let_def)
qed

text \<open>The error indicator is rendered only in a state that holds data.\<close>

lemma error_indicator_needs_data:
  assumes "render s = ErrorIndicator"
  shows "chartData s \<noteq> [] \<and> error s \<noteq> None \<and> \<not> isLoading s"
  using assms by (auto simp: render_def split: if_splits)

text \<open>
  When the first request returns a series of one datum, the component renders the chart of
  that series.
\<close>

lemma single_point_reaches_chart:
  "\<exists>s. run [Effect, Effect, Then [d], Effect, Finally] mount = Some s \<and> render s = Chart [d]"
  by (simp add: mount_def useEffect_def render_def)

section \<open>Export: the overlay and its label\<close>

lemma removeChild_appended:
  assumes "list_all (\<lambda>n. ident n < k) children"
  shows "removeChild (overlay k label) (appendChild (overlay k label) children) = children"
proof -
  have "filter (\<lambda>n. ident n \<noteq> k) children = children"
    using assms by (intro filter_True) (auto simp: list_all_iff)
  then show ?thesis
    by (simp add: removeChild_def appendChild_def overlay_def)
qed

text \<open>
  Claim C7. Let the chart element be present with children whose identities are older than the
  next node's, and let \<open>node\<close> be the overlay span that \<^verbatim>\<open>handleSaveToPng\<close> creates. The span is
  among the children when \<^verbatim>\<open>html2canvas\<close> is called. If \<^verbatim>\<open>html2canvas\<close> resolves, the download is
  started and the span is removed again: the children are as before. If it rejects, the span
  stays attached after the other children, no download is started, and the error is logged.
\<close>

theorem overlay_removed_only_on_success:
  assumes ref: "divChartRef s = Some children"
    and fresh: "list_all (\<lambda>n. ident n < created s) children"
    and node: "node = overlay (created s) (poolQty toLocaleString poolType poolData)"
    and after: "s' = handleSaveToPng toLocaleString html2canvas poolType poolData s"
  shows "(html2canvas (Some (children @ [node])) = Canvas url \<longrightarrow>
            divChartRef s' = Some children
          \<and> downloads s' = downloads s @ [(url, ''zcash-'' @ poolType @ ''-pool-chart.png'')]
          \<and> console s' = console s)
       \<and> (html2canvas (Some (children @ [node])) = Rejected err \<longrightarrow>
            divChartRef s' = Some (children @ [node])
          \<and> downloads s' = downloads s
          \<and> console s' = console s @ [''Error saving chart: '' @ err])"
proof -
  have rm: "removeChild node (appendChild node children) = children"
    unfolding node using fresh by (rule removeChild_appended)
  show ?thesis
    using ref rm unfolding after node
    by (simp add: handleSaveToPng_def Let_def appendChild_def)
qed

text \<open>
  Claim C7 on a page whose chart element holds one child: an export that succeeds, and one
  whose rasterization fails.
\<close>

theorem overlay_removed_only_on_success_witness:
  "divChartRef chart_page = Some [chart_canvas]
   \<and> list_all (\<lambda>n. ident n < created chart_page) [chart_canvas]
   \<and> divChartRef (handleSaveToPng en_US (\<lambda>_. Canvas ''data:image/png;base64,iVBORw0KGgo='')
        ''sprout'' sprout_pool chart_page) = Some [chart_canvas]
   \<and> divChartRef (handleSaveToPng en_US (\<lambda>_. Rejected ''SecurityError'')
        ''sprout'' sprout_pool chart_page)
      = Some [chart_canvas, overlay 1 ''1,234,567 ZEC in Sprout Pool'']"
proof -
  let ?node = "overlay (created chart_page) (poolQty en_US ''sprout'' sprout_pool)"
  let ?ok = "\<lambda>_ :: element list option. Canvas ''data:image/png;base64,iVBORw0KGgo=''"
  let ?ko = "\<lambda>_ :: element list option. Rejected ''SecurityError''"
  have ref: "divChartRef chart_page = Some [chart_canvas]"
    by (simp add: chart_page_def)
  have fresh: "list_all (\<lambda>n. ident n < created chart_page) [chart_canvas]"
    by (simp add: chart_page_def chart_canvas_def)
  have label: "?node = overlay 1 ''1,234,567 ZEC in Sprout Pool''"
    by (simp add: chart_page_def poolQty_def PoolsType_sprout_def interpolate_def
        sprout_pool_def en_US_def)
  from overlay_removed_only_on_success [OF ref fresh refl refl, of ?ok _ _ _ "''data:image/png;base64,iVBORw0KGgo=''"]
  have "divChartRef (handleSaveToPng en_US ?ok ''sprout'' sprout_pool chart_page)
          = Some [chart_canvas]"
    by simp
  moreover
  from overlay_removed_only_on_success [OF ref fresh refl refl, of ?ko _ _ _ _ "''SecurityError''"]
  have "divChartRef (handleSaveToPng en_US ?ko ''sprout'' sprout_pool chart_page)
          = Some ([chart_canvas] @ [?node])"
    by simp
  ultimately show ?thesis
    using ref fresh label by simp
qed

text \<open>
  Claim C8. With pool type \<^verbatim>\<open>"sprout"\<close> and an entry under \<^verbatim>\<open>"sproutSupply"\<close> that is not null,
  the text of the overlay is the entry's supply as \<^verbatim>\<open>toLocaleString\<close> writes it, followed by
  \<^verbatim>\<open>" ZEC in Sprout Pool"\<close>.
\<close>

theorem sprout_label:
  assumes "poolData ''sproutSupply'' = Some (Some entry)"
  shows "textContent (overlay n (poolQty toLocaleString ''sprout'' poolData))
           = toLocaleString (poolSupply entry) @ '' ZEC in Sprout Pool''"
  using assms by (simp add: overlay_def poolQty_def PoolsType_sprout_def interpolate_def)

text \<open>Claim C8 for a supply of 1234567 in the locale \<^verbatim>\<open>en-US\<close>.\<close>

theorem sprout_label_witness:
  "sprout_pool ''sproutSupply'' = Some (Some \<lparr>timestamp = ''2024-01-01'', poolSupply = 1234567\<rparr>)
   \<and> textContent (overlay 1 (poolQty en_US ''sprout'' sprout_pool))
      = ''1,234,567 ZEC in Sprout Pool''"
proof -
  have h: "sprout_pool ''sproutSupply''
             = Some (Some \<lparr>timestamp = ''2024-01-01'', poolSupply = 1234567\<rparr>)"
    by (simp add: sprout_pool_def)
  have "en_US 1234567 = ''1,234,567''"
    by (simp add: en_US_def)
  with sprout_label [where poolData = sprout_pool and toLocaleString = en_US and n = 1, OF h] h
  show ?thesis by simp
qed

text \<open>
  Claim C10. For each of the pool types \<^verbatim>\<open>"sprout"\<close>, \<^verbatim>\<open>"sapling"\<close> and \<^verbatim>\<open>"orchard"\<close>: when the
  entry of the pool is absent or null, the text of the overlay is \<^verbatim>\<open>"undefined ZEC in Sprout Pool"\<close>
  (or Sapling, or Orchard), and so not the empty string.
\<close>

theorem missing_entry_label:
  "(poolData ''sproutSupply'' = None \<or> poolData ''sproutSupply'' = Some None \<longrightarrow>
      poolQty toLocaleString ''sprout'' poolData = ''undefined ZEC in Sprout Pool''
    \<and> poolQty toLocaleString ''sprout'' poolData \<noteq> [])
 \<and> (poolData ''saplingSupply'' = None \<or> poolData ''saplingSupply'' = Some None \<longrightarrow>
      poolQty toLocaleString ''sapling'' poolData = ''undefined ZEC in Sapling Pool''
    \<and> poolQty toLocaleString ''sapling'' poolData \<noteq> [])
 \<and> (poolData ''orchardSupply'' = None \<or> poolData ''orchardSupply'' = Some None \<longrightarrow>
      poolQty toLocaleString ''orchard'' poolData = ''undefined ZEC in Orchard Pool''
    \<and> poolQty toLocaleString ''orchard'' poolData \<noteq> [])"
  by (auto simp: poolQty_def PoolsType_sprout_def PoolsType_sap_def PoolsType_ord_def
      interpolate_def)

text \<open>
  Claim C10 for balances that hold the sprout pool only, where the sapling entry is absent, and
  for balances whose orchard entry is null.
\<close>

theorem missing_entry_label_witness:
  "sprout_pool ''saplingSupply'' = None
   \<and> poolQty en_US ''sapling'' sprout_pool = ''undefined ZEC in Sapling Pool''
   \<and> [''orchardSupply'' \<mapsto> None] ''orchardSupply'' = Some (None :: PoolEntry option)
   \<and> poolQty en_US ''orchard'' [''orchardSupply'' \<mapsto> None] = ''undefined ZEC in Orchard Pool''"
proof -
  have absent: "sprout_pool ''saplingSupply'' = None"
    by (simp add: sprout_pool_def)
  have null: "[''orchardSupply'' \<mapsto> None] ''orchardSupply'' = Some (None :: PoolEntry option)"
    by simp
  from missing_entry_label [of sprout_pool en_US] absent
  have "poolQty en_US ''sapling'' sprout_pool = ''undefined ZEC in Sapling Pool''"
    by blast
  moreover
  from missing_entry_label [of "[''orchardSupply'' \<mapsto> None]" en_US] null
  have "poolQty en_US ''orchard'' [''orchardSupply'' \<mapsto> None] = ''undefined ZEC in Orchard Pool''"
    by blast
  ultimately show ?thesis using absent null by blast
qed

end
